theory Spec2Isabelle
  imports Main "HOL-Library.Word"
begin

section \<open>Shared data of the chunked tar container\<close>

text \<open>
  The package \<open>chunktar\<close> stores each logical file of a dump as a run of tar entries named
  \<open>logical.NNNNNNNNNNNN\<close> (twelve decimal digits).  A tar archive is modelled by what the package reads and
  writes of it: the list of its entries, each a name and a body.  The header fields
  \<open>Mode\<close> and \<open>ModTime\<close> (the latter is \<open>time.Now()\<close>) play no part in any function of
  the package and are left out.
\<close>

type_synonym byte = "8 word"

type_synonym tar_entry = "string \<times> byte list"

text \<open>Go's \<open>error\<close> values that the package produces or passes on; \<open>io.EOF\<close> is one of them.\<close>

datatype error =
    EOF
  | NotOpen
  | ErrWriteAfterClose
  | SliceBoundsPanic
  | TarReadError
  | ChunkNumberParseError string
  | ChunksOutOfOrder string "64 word" "64 word"
  | MissingFirstChunk string "64 word"
  | InvalidName string
  | CollaboratorError string

definition bufferThreshold :: int where
  "bufferThreshold = 4 * 1024 * 1024"

definition bufferLimit :: int where
  "bufferLimit = bufferThreshold * 2"

subsection \<open>The chunk name: \<open>fmt.Sprintf("%s.%012d", name, chunkCount)\<close>\<close>

definition digit_char :: "nat \<Rightarrow> char" where
  "digit_char d = ''0123456789'' ! (d mod 10)"

fun digits10 :: "nat \<Rightarrow> string" where
  "digits10 n = (if n < 10 then [digit_char n] else digits10 (n div 10) @ [digit_char (n mod 10)])"

declare digits10.simps [simp del]

text \<open>\<open>%012d\<close> pads with zeros to a width of at least 12; a longer number is printed in full.\<close>

definition pad12 :: "string \<Rightarrow> string" where
  "pad12 s = replicate (12 - length s) (CHR ''0'') @ s"

definition chunkName :: "string \<Rightarrow> 64 word \<Rightarrow> string" where
  "chunkName nm c = nm @ ''.'' @ pad12 (digits10 (unat c))"

section \<open>The chunked Writer\<close>

text \<open>
  The underlying \<open>tar.Writer\<close>, writing to memory: \<open>WriteHeader\<close> opens a new entry,
  \<open>Write\<close> appends to the body of the entry last opened, and both fail once the tar writer
  has been closed.
\<close>

record tar_writer =
  entries :: "tar_entry list"
  tw_closed :: bool

definition tar_NewWriter :: tar_writer where
  "tar_NewWriter = \<lparr>entries = [], tw_closed = False\<rparr>"

definition tar_WriteHeader :: "tar_writer \<Rightarrow> string \<Rightarrow> tar_writer \<times> error option" where
  "tar_WriteHeader tw nm =
     (if tw_closed tw then (tw, Some ErrWriteAfterClose)
      else (tw\<lparr>entries := entries tw @ [(nm, [])]\<rparr>, None))"

definition tar_Write :: "tar_writer \<Rightarrow> byte list \<Rightarrow> tar_writer \<times> error option" where
  "tar_Write tw bs =
     (if tw_closed tw then (tw, Some ErrWriteAfterClose)
      else (case entries tw of
              [] \<Rightarrow> (tw, Some ErrWriteAfterClose)
            | _ # _ \<Rightarrow> (tw\<lparr>entries := butlast (entries tw) @
                                 [(fst (last (entries tw)), snd (last (entries tw)) @ bs)]\<rparr>, None)))"

definition tar_Flush :: "tar_writer \<Rightarrow> tar_writer \<times> error option" where
  "tar_Flush tw = (tw, None)"

definition tar_Close :: "tar_writer \<Rightarrow> tar_writer \<times> error option" where
  "tar_Close tw = (tw\<lparr>tw_closed := True\<rparr>, None)"

text \<open>
  The struct \<open>Writer\<close>.  The field \<open>open\<close> is called \<open>isOpen\<close> here.  The wait group has no
  field: \<open>writeOutput\<close>, which the source starts as a goroutine, is run to its end inside
  \<open>swapInOut\<close>.  This is what the foreground observes, since it calls \<open>wait.Wait()\<close> before
  each later access to \<open>tarWriter\<close>, \<open>outputBuffer\<close> and \<open>outputError\<close> (at the head of
  \<open>swapInOut\<close> and in \<open>Flush\<close>).
\<close>

record Writer =
  tarWriter :: tar_writer
  inputBuffer :: "byte list"
  outputBuffer :: "byte list"
  outputError :: "error option"
  isOpen :: bool
  name :: string
  chunkCount :: "64 word"

definition NewWriter :: Writer where
  "NewWriter = \<lparr>tarWriter = tar_NewWriter, inputBuffer = [], outputBuffer = [],
                 outputError = None, isOpen = True, name = [], chunkCount = 0\<rparr>"

text \<open>Every method returns the writer as the call leaves it, and the error (\<open>None\<close> is \<open>nil\<close>).\<close>

definition writeOutput :: "Writer \<Rightarrow> string \<Rightarrow> Writer" where
  "writeOutput w cn =
     (case tar_WriteHeader (tarWriter w) cn of
        (tw, Some err) \<Rightarrow> w\<lparr>tarWriter := tw, outputError := Some err\<rparr>
      | (tw, None) \<Rightarrow>
          (case tar_Write tw (outputBuffer w) of
             (tw', Some err) \<Rightarrow> w\<lparr>tarWriter := tw', outputError := Some err\<rparr>
           | (tw', None) \<Rightarrow> w\<lparr>tarWriter := tw', outputBuffer := []\<rparr>))"

definition swapInOut :: "Writer \<Rightarrow> Writer \<times> error option" where
  "swapInOut w =
     (case outputError w of
        Some err \<Rightarrow> (w, Some err)
      | None \<Rightarrow>
          (let cn = chunkName (name w) (chunkCount w);
               w1 = w\<lparr>chunkCount := chunkCount w + 1\<rparr>;
               w2 = w1\<lparr>inputBuffer := outputBuffer w1, outputBuffer := inputBuffer w1\<rparr>;
               w3 = writeOutput w2 cn
           in (w3\<lparr>inputBuffer := []\<rparr>, None)))"

definition Flush :: "Writer \<Rightarrow> Writer \<times> error option" where
  "Flush w =
     (if \<not> isOpen w then (w, Some NotOpen)
      else (case (if length (inputBuffer w) > 0 then swapInOut w else (w, None)) of
              (w1, Some err) \<Rightarrow> (w1, Some err)
            | (w1, None) \<Rightarrow>
                (case outputError w1 of
                   Some err \<Rightarrow> (w1, Some err)
                 | None \<Rightarrow> (case tar_Flush (tarWriter w1) of
                              (tw, err) \<Rightarrow> (w1\<lparr>tarWriter := tw\<rparr>, err)))))"

definition Close :: "Writer \<Rightarrow> Writer \<times> error option" where
  "Close w =
     (if \<not> isOpen w then (w, Some NotOpen)
      else (case Flush w of
              (w1, Some err) \<Rightarrow> (w1\<lparr>isOpen := False\<rparr>, Some err)
            | (w1, None) \<Rightarrow>
                (case tar_Close (tarWriter w1) of
                   (tw, err) \<Rightarrow> (w1\<lparr>tarWriter := tw, isOpen := False\<rparr>, err))))"

definition WriteHeader :: "Writer \<Rightarrow> string \<Rightarrow> Writer \<times> error option" where
  "WriteHeader w nm =
     (if \<not> isOpen w then (w, Some NotOpen)
      else (case Flush w of
              (w1, Some err) \<Rightarrow> (w1, Some err)
            | (w1, None) \<Rightarrow> (w1\<lparr>name := nm, chunkCount := 0\<rparr>, None)))"

text \<open>
  The loop of \<open>Write\<close>, with \<open>start\<close> and \<open>stop\<close> as the source has them (Go's \<open>int\<close>; the
  values stay between \<open>-bufferLimit\<close> and \<open>len(b) + bufferLimit\<close>, far from overflow).
  The slice expression \<open>b[start:stop]\<close> panics when its bounds are out of order or out of
  range.  \<open>bytes.Buffer.Write\<close> always returns a nil error, so that check of the source has
  no branch here.
\<close>

function Write_loop :: "Writer \<Rightarrow> byte list \<Rightarrow> int \<Rightarrow> int \<Rightarrow> Writer \<times> error option" where
  "Write_loop w b start stop =
     (if start < int (length b) then
        (case (if start > 0 then swapInOut w else (w, None)) of
           (w1, Some err) \<Rightarrow> (w1, Some err)
         | (w1, None) \<Rightarrow>
             if start < 0 \<or> stop < start \<or> int (length b) < stop then (w1, Some SliceBoundsPanic)
             else Write_loop
                    (w1\<lparr>inputBuffer := inputBuffer w1 @ take (nat (stop - start)) (drop (nat start) b)\<rparr>)
                    b stop (min (stop + bufferLimit) (int (length b))))
      else (w, None))"
  by pat_completeness auto
termination
  by (relation "measure (\<lambda>(w, b, start, stop).
        2 * nat (int (length b) - start) + (if stop \<le> start then 1 else 0))")
     (auto simp: bufferLimit_def bufferThreshold_def)

declare Write_loop.simps [simp del]

definition Write :: "Writer \<Rightarrow> byte list \<Rightarrow> Writer \<times> error option" where
  "Write w b =
     (if \<not> isOpen w then (w, Some NotOpen)
      else (case Write_loop w b 0 (min (int (length b)) (bufferLimit - int (length (inputBuffer w)))) of
              (w1, Some err) \<Rightarrow> (w1, Some err)
            | (w1, None) \<Rightarrow>
                if int (length (inputBuffer w1)) > bufferThreshold then swapInOut w1
                else (w1, None)))"

section \<open>The chunked Reader\<close>

subsection \<open>The chunk regex and the chunk number\<close>

text \<open>
  \<open>chunkFileNameRegex\<close> is \<open>^(.+)\.(\d{12})$\<close>.  In Go's syntax \<open>.\<close> matches every
  character but the newline, \<open>\d\<close> the ASCII digits, and \<open>$\<close> (no \<open>m\<close> flag) only the end of
  the text.  So a name matches exactly when its last thirteen characters are a dot and twelve
  digits, and what precedes them is not empty and has no newline; the two submatches are
  that prefix and the twelve digits.
\<close>

definition isDigit :: "char \<Rightarrow> bool" where
  "isDigit c = (c \<in> set ''0123456789'')"

definition chunkFileNameRegex :: "string \<Rightarrow> (string \<times> string) option" where
  "chunkFileNameRegex s =
     (let n = length s; nm = take (n - 13) s; digs = drop (n - 12) s
      in if 14 \<le> n \<and> CHR 0x0A \<notin> set nm \<and> s ! (n - 13) = CHR ''.'' \<and> list_all isDigit digs
         then Some (nm, digs) else None)"

definition digit_val :: "char \<Rightarrow> nat" where
  "digit_val c = (of_char c :: nat) - 48"

text \<open>\<open>strconv.ParseUint(s, 10, 64)\<close>: a syntax error, a range error, or the value.\<close>

definition ParseUint :: "string \<Rightarrow> error + 64 word" where
  "ParseUint s =
     (let v = foldl (\<lambda>a c. 10 * a + digit_val c) 0 s
      in if s = [] \<or> \<not> list_all isDigit s then Inl (ChunkNumberParseError s)
         else if 2 ^ 64 \<le> v then Inl (ChunkNumberParseError s)
         else Inr (of_nat v))"

subsection \<open>The underlying \<open>tar.Reader\<close>\<close>

text \<open>
  The tar reader holds the entries not yet reached, and the name and the unread bytes of
  the entry it stands on.  \<open>Next\<close> skips what is unread and moves to the next entry; at the
  end it returns \<open>io.EOF\<close>, or another error when the archive is cut short (\<open>truncated\<close>).
  \<open>Read\<close> hands out up to \<open>n\<close> bytes of the current entry.  Releases of \<open>archive/tar\<close>
  differ in when they report the end of an entry: with the bytes that reach it (\<open>eagerEOF\<close>),
  or by a later call that returns no bytes.  Both are modelled; the flag selects one.
\<close>

record tar_reader =
  pending :: "tar_entry list"
  curName :: string
  cur :: "byte list"
  truncated :: bool
  eagerEOF :: bool

definition tar_NewReader :: "tar_entry list \<Rightarrow> bool \<Rightarrow> bool \<Rightarrow> tar_reader" where
  "tar_NewReader es trunc eager =
     \<lparr>pending = es, curName = [], cur = [], truncated = trunc, eagerEOF = eager\<rparr>"

definition tar_Next :: "tar_reader \<Rightarrow> tar_reader \<times> (error + string)" where
  "tar_Next tr =
     (case pending tr of
        [] \<Rightarrow> (tr\<lparr>cur := []\<rparr>, Inl (if truncated tr then TarReadError else EOF))
      | (nm, body) # rest \<Rightarrow> (tr\<lparr>pending := rest, curName := nm, cur := body\<rparr>, Inr nm))"

definition tar_Read :: "tar_reader \<Rightarrow> nat \<Rightarrow> tar_reader \<times> byte list \<times> error option" where
  "tar_Read tr n =
     (if cur tr = [] then (tr, [], Some EOF)
      else if eagerEOF tr \<and> drop n (cur tr) = [] then (tr\<lparr>cur := []\<rparr>, take n (cur tr), Some EOF)
      else (tr\<lparr>cur := drop n (cur tr)\<rparr>, take n (cur tr), None))"

subsection \<open>The struct \<open>Reader\<close> and its methods\<close>

text \<open>The field \<open>name\<close> of the source's \<open>Reader\<close> is \<open>rname\<close> here (\<open>name\<close> is the Writer's).\<close>

record Reader =
  tarReader :: tar_reader
  rname :: string
  number :: "64 word"
  nextName :: string

definition NewReader :: "tar_reader \<Rightarrow> Reader" where
  "NewReader tr = \<lparr>tarReader = tr, rname = [], number = 0, nextName = []\<rparr>"

definition nextChunk :: "Reader \<Rightarrow> Reader \<times> error option" where
  "nextChunk r =
     (case tar_Next (tarReader r) of
        (tr, Inl err) \<Rightarrow>
          (if err = EOF then (r\<lparr>tarReader := tr\<rparr>, Some EOF)
           else (r\<lparr>tarReader := tr\<rparr>, Some TarReadError))
      | (tr, Inr hname) \<Rightarrow>
          (let r1 = r\<lparr>tarReader := tr\<rparr> in
           case chunkFileNameRegex hname of
             Some (nm, digs) \<Rightarrow>
               (case ParseUint digs of
                  Inl err \<Rightarrow> (r1, Some (ChunkNumberParseError hname))
                | Inr chunk \<Rightarrow>
                    if nm = rname r1 then
                      (if chunk \<noteq> number r1 + 1
                       then (r1, Some (ChunksOutOfOrder nm (number r1 + 1) chunk))
                       else (r1\<lparr>number := chunk\<rparr>, None))
                    else if chunk \<noteq> 0 then (r1, Some (MissingFirstChunk nm chunk))
                    else (r1\<lparr>nextName := nm, rname := []\<rparr>, None))
           | None \<Rightarrow> (r1\<lparr>nextName := hname, rname := []\<rparr>, None)))"

lemma nextChunk_progress:
  "nextChunk r = (r', err) \<Longrightarrow>
     (err \<noteq> None \<and> length (pending (tarReader r')) \<le> length (pending (tarReader r)))
     \<or> length (pending (tarReader r')) < length (pending (tarReader r))"
  by (auto simp: nextChunk_def tar_Next_def Let_def
           split: list.splits option.splits sum.splits if_splits prod.splits)

lemma nextChunk_measure:
  "(case nextChunk r of (r', err') \<Rightarrow>
      2 * length (pending (tarReader r')) + (if err' = None then 1 else 0))
   < Suc (2 * length (pending (tarReader r)))"
proof (cases "nextChunk r")
  case (Pair r' err')
  from nextChunk_progress [OF this] Pair show ?thesis by auto
qed

text \<open>
  The loop of \<open>Next\<close>: \<open>for err := error(nil); r.nextName == ""; err = r.nextChunk()\<close>, whose
  body returns a non-nil \<open>err\<close>.
\<close>

function Next_loop :: "Reader \<Rightarrow> error option \<Rightarrow> Reader \<times> error option" where
  "Next_loop r err =
     (if nextName r = [] then
        (case err of
           Some e \<Rightarrow> (r, Some e)
         | None \<Rightarrow> (case nextChunk r of (r', err') \<Rightarrow> Next_loop r' err'))
      else (r, None))"
  by pat_completeness auto
termination
  by (relation "measure (\<lambda>(r, err). 2 * length (pending (tarReader r)) + (if err = None then 1 else 0))")
     (auto simp: nextChunk_measure)

declare Next_loop.simps [simp del]

definition Next :: "Reader \<Rightarrow> Reader \<times> (error + string)" where
  "Next r =
     (case Next_loop r None of
        (r1, Some e) \<Rightarrow> (r1, Inl e)
      | (r1, None) \<Rightarrow> (r1\<lparr>rname := nextName r1, nextName := [], number := 0\<rparr>, Inr (nextName r1)))"

text \<open>
  \<open>Read(b)\<close>, with \<open>n = len(b)\<close>; the bytes returned are those stored in \<open>b[0:n']\<close>.
\<close>

definition Read :: "Reader \<Rightarrow> nat \<Rightarrow> Reader \<times> byte list \<times> error option" where
  "Read r n =
     (if nextName r \<noteq> [] \<or> rname r = [] then (r, [], Some EOF)
      else if n = 0 then (r, [], None)
      else (case tar_Read (tarReader r) n of
              (tr, bs, err) \<Rightarrow>
                (let r1 = r\<lparr>tarReader := tr\<rparr> in
                 if err = Some EOF then
                   (case nextChunk r1 of
                      (r2, Some e) \<Rightarrow> (r2, bs, Some e)
                    | (r2, None) \<Rightarrow>
                        if bs = [] \<and> nextName r2 = [] then
                          (case tar_Read (tarReader r2) n of
                             (tr', bs', err') \<Rightarrow> (r2\<lparr>tarReader := tr'\<rparr>, bs', err'))
                        else (r2, bs, None))
                 else (r1, bs, err))))"

section \<open>The tar restore driver\<close>

text \<open>
  \<open>RestoreTarDump\<close> and \<open>TarRestoreState\<close> of package \<open>mongorestore\<close>.  The functions the
  driver calls and that lie outside the sources at hand are fields of the record
  \<open>MongoRestore\<close>: the name classifier \<open>GetInfoFromTarHeaderName\<close>, the validators of package
  \<open>util\<close>, \<open>CreateIntentForFile\<close> (which also writes through the pointer
  \<open>&state.UsesMetadataFiles\<close>, hence the returned flag) and the five restore callbacks.
  \<open>IndexesFromBSONReader\<close> reads from the chunk reader, which stands on the file of the
  current iteration; it is given that file's name instead.  A nil \<open>*intents.Intent\<close> is
  \<open>None\<close>, a nil \<open>map[string][]IndexDocument\<close> is \<open>None\<close>, a nil slice is \<open>[]\<close>, and a map
  entry that is nil or absent is absent from the association list.
\<close>

datatype FileType = UnknownFileType | BSONFileType | MetadataFileType

record Intent =
  DB :: string
  C :: string

type_synonym IndexDocument = string

text \<open>The calls made to the restore callbacks, in order: kept in the state to state claims.\<close>

datatype call =
    CallRestoreBeginCollection Intent
  | CallRestoreCollectionMetadata Intent bool
  | CallRestoreCollectionBSON Intent
  | CallIndexesFromBSONReader string string
  | CallRestoreCollectionIndexes "Intent option" "IndexDocument list"

record MongoRestore =
  ToolOptions_DB :: string
  ToolOptions_Collection :: string
  NoIndexRestore :: bool
  GetInfoFromTarHeaderName :: "string \<Rightarrow> string \<times> string \<times> FileType"
  ValidateDBName :: "string \<Rightarrow> error option"
  ValidateCollectionGrammar :: "string \<Rightarrow> error option"
  CreateIntentForFile :: "string \<Rightarrow> string \<Rightarrow> FileType \<Rightarrow> bool \<Rightarrow> Intent option \<times> bool"
  RestoreBeginCollection :: "Intent \<Rightarrow> bool \<times> error option"
  RestoreCollectionMetadata :: "Intent \<Rightarrow> bool \<Rightarrow> IndexDocument list \<times> error option"
  RestoreCollectionBSON :: "Intent \<Rightarrow> error option"
  IndexesFromBSONReader :: "string \<Rightarrow> string \<Rightarrow> (string \<times> IndexDocument list) list option \<times> error option"
  RestoreCollectionIndexes :: "Intent option \<Rightarrow> IndexDocument list \<Rightarrow> error option"

record TarRestoreState =
  PastDbs :: "string list"
  CurrentDb :: string
  SingleDb :: bool
  PastCollections :: "string list"
  CurrentCollection :: string
  SingleCollection :: bool
  UsesMetadataFiles :: bool
  RestoredMetadata :: bool
  RestoredBSON :: bool
  CollectionExists :: bool
  MetadataIndexes :: "IndexDocument list"
  SystemIndexes :: "(string \<times> IndexDocument list) list option"
  Intent :: "Intent option"
  calls :: "call list"

text \<open>
  How a call of the driver ends: it returns nil, it returns an error, or it panics on the
  nil pointer dereference \<open>state.Intent.C\<close>.
\<close>

datatype outcome = ReturnedNil | Returned error | NilDereferencePanic

definition NewTarRestoreState :: "MongoRestore \<Rightarrow> TarRestoreState" where
  "NewTarRestoreState restore =
     \<lparr>PastDbs = [], CurrentDb = ToolOptions_DB restore, SingleDb = (ToolOptions_DB restore \<noteq> []),
      PastCollections = [], CurrentCollection = ToolOptions_Collection restore,
      SingleCollection = (ToolOptions_Collection restore \<noteq> []),
      UsesMetadataFiles = False, RestoredMetadata = False, RestoredBSON = False,
      CollectionExists = False, MetadataIndexes = [], SystemIndexes = None, Intent = None,
      calls = []\<rparr>"

definition resetCollectionFlags :: "TarRestoreState \<Rightarrow> TarRestoreState" where
  "resetCollectionFlags state =
     state\<lparr>RestoredMetadata := False, RestoredBSON := False, CollectionExists := False,
           MetadataIndexes := []\<rparr>"

definition ChangeCollection ::
  "MongoRestore \<Rightarrow> TarRestoreState \<Rightarrow> string \<Rightarrow> TarRestoreState \<times> outcome" where
  "ChangeCollection restore state collection =
     (let s1 = (if CurrentCollection state \<noteq> []
                then state\<lparr>PastCollections := PastCollections state @ [CurrentCollection state]\<rparr>
                else state);
          s2 = s1\<lparr>CurrentCollection := collection, UsesMetadataFiles := False\<rparr>
      in if RestoredMetadata s2 then
           (let s3 = s2\<lparr>calls := calls s2 @ [CallRestoreCollectionIndexes (Intent s2) (MetadataIndexes s2)]\<rparr>
            in case RestoreCollectionIndexes restore (Intent s2) (MetadataIndexes s2) of
                 Some err \<Rightarrow> (s3, Returned err)
               | None \<Rightarrow> (resetCollectionFlags s3, ReturnedNil))
         else
           (case SystemIndexes s2 of
              None \<Rightarrow> (resetCollectionFlags s2, ReturnedNil)
            | Some sysidx \<Rightarrow>
                (case Intent s2 of
                   None \<Rightarrow> (s2, NilDereferencePanic)
                 | Some intent \<Rightarrow>
                     (case map_of sysidx (C intent) of
                        None \<Rightarrow> (resetCollectionFlags s2, ReturnedNil)
                      | Some idx \<Rightarrow>
                          (let s3 = s2\<lparr>calls := calls s2 @ [CallRestoreCollectionIndexes (Intent s2) idx]\<rparr>
                           in case RestoreCollectionIndexes restore (Intent s2) idx of
                                Some err \<Rightarrow> (s3, Returned err)
                              | None \<Rightarrow> (resetCollectionFlags s3, ReturnedNil))))))"

definition ChangeDatabase ::
  "MongoRestore \<Rightarrow> TarRestoreState \<Rightarrow> string \<Rightarrow> TarRestoreState \<times> outcome" where
  "ChangeDatabase restore state db =
     (let s1 = (if CurrentDb state \<noteq> [] then state\<lparr>PastDbs := PastDbs state @ [CurrentDb state]\<rparr>
                else state);
          s2 = s1\<lparr>CurrentDb := db, PastCollections := [], SystemIndexes := None\<rparr>
      in ChangeCollection restore s2 [])"

definition HasPrefix :: "string \<Rightarrow> string \<Rightarrow> bool" where
  "HasPrefix s pre = (take (length pre) s = pre)"

text \<open>
  One pass through the body of the loop of \<open>RestoreTarDump\<close> ends in a \<open>continue\<close> or at
  the end of the body (\<open>NextFile\<close>), or leaves the function (\<open>Leave\<close>); the two transitions
  at its head may also fall through to the rest of the body (\<open>Proceed\<close>).  The loop ignores
  the value that \<open>ChangeDatabase\<close> and \<open>ChangeCollection\<close> return; a panic is not a returned
  value and ends the function.
\<close>

datatype control = Proceed | NextFile | Leave outcome

definition ignoreReturned :: "TarRestoreState \<times> outcome \<Rightarrow> TarRestoreState \<times> control" where
  "ignoreReturned res =
     (case res of
        (s, NilDereferencePanic) \<Rightarrow> (s, Leave NilDereferencePanic)
      | (s, _) \<Rightarrow> (s, Proceed))"

definition databaseTransition ::
  "MongoRestore \<Rightarrow> TarRestoreState \<Rightarrow> string \<Rightarrow> TarRestoreState \<times> control" where
  "databaseTransition restore state db =
     (if db \<noteq> CurrentDb state then
        (if SingleDb state then (state, NextFile)
         else ignoreReturned (ChangeDatabase restore state db))
      else (state, Proceed))"

definition collectionTransition ::
  "MongoRestore \<Rightarrow> TarRestoreState \<Rightarrow> string \<Rightarrow> bool \<Rightarrow> TarRestoreState \<times> control" where
  "collectionTransition restore state collection isSystemCollection =
     (if collection \<noteq> CurrentCollection state then
        (if SingleCollection state \<and> \<not> isSystemCollection then (state, NextFile)
         else ignoreReturned (ChangeCollection restore state collection))
      else (state, Proceed))"

text \<open>
  The rest of the body, from the late-metadata guard on.  The error that
  \<open>IndexesFromBSONReader\<close> or \<open>RestoreCollectionBSON\<close> returns is assigned to \<open>err\<close>; the body
  ends there, and the post statement of the loop assigns \<open>err\<close> anew.
\<close>

definition restoreFile ::
  "MongoRestore \<Rightarrow> TarRestoreState \<Rightarrow> string \<Rightarrow> string \<Rightarrow> string \<Rightarrow> FileType \<Rightarrow> bool
     \<Rightarrow> TarRestoreState \<times> control" where
  "restoreFile restore state fileName db collection fileType isSystemCollection =
     (if RestoredBSON state \<and> fileType = MetadataFileType then (state, NextFile)
      else
        (case CreateIntentForFile restore db collection fileType (UsesMetadataFiles state) of
           (intent, uses) \<Rightarrow>
             (let s1 = state\<lparr>Intent := intent, UsesMetadataFiles := uses\<rparr> in
              case intent of
                None \<Rightarrow> (s1, NextFile)
              | Some it \<Rightarrow>
                  (case (if \<not> RestoredMetadata s1 \<and> \<not> RestoredBSON s1 \<and> \<not> isSystemCollection then
                           (case RestoreBeginCollection restore it of
                              (ex, err) \<Rightarrow>
                                (s1\<lparr>CollectionExists := ex,
                                    calls := calls s1 @ [CallRestoreBeginCollection it]\<rparr>, err))
                         else (s1, None)) of
                     (s2, Some err) \<Rightarrow> (s2, Leave (Returned err))
                   | (s2, None) \<Rightarrow>
                       if fileType = MetadataFileType \<and> \<not> isSystemCollection then
                         (case RestoreCollectionMetadata restore it (CollectionExists s2) of
                            (idx, err) \<Rightarrow>
                              (let s3 = s2\<lparr>MetadataIndexes := idx,
                                          calls := calls s2 @
                                            [CallRestoreCollectionMetadata it (CollectionExists s2)]\<rparr>
                               in case err of
                                    Some e \<Rightarrow> (s3, Leave (Returned e))
                                  | None \<Rightarrow> (s3\<lparr>RestoredMetadata := True\<rparr>, NextFile)))
                       else if fileType = BSONFileType then
                         (if collection = ''system.indexes'' \<and> \<not> NoIndexRestore restore then
                            (case IndexesFromBSONReader restore (ToolOptions_Collection restore) fileName of
                               (sysidx, err) \<Rightarrow>
                                 (s2\<lparr>SystemIndexes := sysidx,
                                     calls := calls s2 @
                                       [CallIndexesFromBSONReader (ToolOptions_Collection restore) fileName]\<rparr>,
                                  NextFile))
                          else
                            (case RestoreCollectionBSON restore it of
                               err \<Rightarrow> (s2\<lparr>calls := calls s2 @ [CallRestoreCollectionBSON it]\<rparr>, NextFile)))
                       else (s2, NextFile)))))"

definition loopBody :: "MongoRestore \<Rightarrow> TarRestoreState \<Rightarrow> string \<Rightarrow> TarRestoreState \<times> control" where
  "loopBody restore state fileName =
     (case GetInfoFromTarHeaderName restore fileName of
        (db, collection, fileType) \<Rightarrow>
          if fileType = UnknownFileType then (state, NextFile)
          else if ValidateDBName restore db \<noteq> None then (state, NextFile)
          else if ValidateCollectionGrammar restore collection \<noteq> None then (state, NextFile)
          else
            (let isSystemCollection = HasPrefix collection ''system.'' in
             case databaseTransition restore state db of
               (s1, Proceed) \<Rightarrow>
                 (case collectionTransition restore s1 collection isSystemCollection of
                    (s2, Proceed) \<Rightarrow>
                      restoreFile restore s2 fileName db collection fileType isSystemCollection
                  | (s2, c) \<Rightarrow> (s2, c))
             | (s1, c) \<Rightarrow> (s1, c)))"

text \<open>
  The driver reads the archive only through \<open>chunkReader.Next()\<close>: its input is the names
  that the successive calls return, and how the sequence ends, with \<open>io.EOF\<close> (\<open>None\<close>) or
  with another error of the reader.  Opening the archive file and the progress bar are left
  out.
\<close>

fun RestoreTarDump_loop ::
  "MongoRestore \<Rightarrow> TarRestoreState \<Rightarrow> string list \<Rightarrow> error option \<Rightarrow> TarRestoreState \<times> outcome" where
  "RestoreTarDump_loop restore state [] readerError =
     (case readerError of
        Some err \<Rightarrow> (state, Returned err)
      | None \<Rightarrow> ChangeCollection restore state [])"
| "RestoreTarDump_loop restore state (fileName # files) readerError =
     (case loopBody restore state fileName of
        (s, Leave out) \<Rightarrow> (s, out)
      | (s, _) \<Rightarrow> RestoreTarDump_loop restore s files readerError)"

definition RestoreTarDump :: "MongoRestore \<Rightarrow> string list \<Rightarrow> error option \<Rightarrow> TarRestoreState \<times> outcome" where
  "RestoreTarDump restore files readerError =
     RestoreTarDump_loop restore (NewTarRestoreState restore) files readerError"

subsection \<open>A collaborator for the examples\<close>

text \<open>
  Modelled from the spec: \<open>GetInfoFromTarHeaderName\<close> is missing from the sources.  The
  spec's name classifier maps \<open>db/col.bson\<close> to \<open>(db, col, bson)\<close>, \<open>db/col.metadata.json\<close> to
  \<open>(db, col, metadata)\<close>, and every other name to \<open>("", "", unknown)\<close>, a logical name
  having exactly one \<open>/\<close>.
\<close>

definition HasSuffix :: "string \<Rightarrow> string \<Rightarrow> bool" where
  "HasSuffix s suf = (length suf \<le> length s \<and> drop (length s - length suf) s = suf)"

definition GetInfoFromTarHeaderName_spec :: "string \<Rightarrow> string \<times> string \<times> FileType" where
  "GetInfoFromTarHeaderName_spec fileName =
     (let db = takeWhile (\<lambda>c. c \<noteq> CHR ''/'') fileName;
          rest = drop (length db + 1) fileName
      in if length db < length fileName \<and> CHR ''/'' \<notin> set rest then
           (if HasSuffix rest ''.bson'' then (db, take (length rest - 5) rest, BSONFileType)
            else if HasSuffix rest ''.metadata.json''
              then (db, take (length rest - 14) rest, MetadataFileType)
            else ([], [], UnknownFileType))
         else ([], [], UnknownFileType))"

text \<open>
  A collaborator on which every call succeeds: no database or collection is selected, index
  restoration is on, the validators accept every non-empty name, an intent is made for
  every file, the metadata of collection \<open>c\<close> carries the one index \<open>c_index\<close>, and
  \<open>system.indexes\<close> holds one index, for collection \<open>orders\<close>.  The examples below change one
  field of it at a time.
\<close>

definition exampleRestore :: MongoRestore where
  "exampleRestore =
     \<lparr>ToolOptions_DB = [], ToolOptions_Collection = [], NoIndexRestore = False,
      GetInfoFromTarHeaderName = GetInfoFromTarHeaderName_spec,
      ValidateDBName = (\<lambda>db. if db = [] then Some (InvalidName db) else None),
      ValidateCollectionGrammar = (\<lambda>c. if c = [] then Some (InvalidName c) else None),
      CreateIntentForFile = (\<lambda>db c t uses. (Some \<lparr>DB = db, C = c\<rparr>, uses \<or> t = MetadataFileType)),
      RestoreBeginCollection = (\<lambda>i. (False, None)),
      RestoreCollectionMetadata = (\<lambda>i ex. ([C i @ ''_index''], None)),
      RestoreCollectionBSON = (\<lambda>i. None),
      IndexesFromBSONReader = (\<lambda>c f. (Some [(''orders'', [''orders_index''])], None)),
      RestoreCollectionIndexes = (\<lambda>i idx. None)\<rparr>"

definition callsAndOutcome :: "TarRestoreState \<times> outcome \<Rightarrow> call list \<times> outcome" where
  "callsAndOutcome res = (calls (fst res), snd res)"

lemmas driver_defs =
  RestoreTarDump_def exampleRestore_def NewTarRestoreState_def loopBody_def
  GetInfoFromTarHeaderName_spec_def HasSuffix_def HasPrefix_def databaseTransition_def
  collectionTransition_def restoreFile_def ChangeDatabase_def ChangeCollection_def
  ignoreReturned_def resetCollectionFlags_def callsAndOutcome_def Let_def

section \<open>The driver on the spec's scenario D\<close>

lemma scenario_D:
  "callsAndOutcome (RestoreTarDump exampleRestore
      [''db1/system.indexes.bson'', ''db1/users.metadata.json'', ''db1/users.bson'',
       ''db1/orders.bson''] None) =
   ([CallIndexesFromBSONReader [] ''db1/system.indexes.bson'',
     CallRestoreBeginCollection \<lparr>DB = ''db1'', C = ''users''\<rparr>,
     CallRestoreCollectionMetadata \<lparr>DB = ''db1'', C = ''users''\<rparr> False,
     CallRestoreCollectionBSON \<lparr>DB = ''db1'', C = ''users''\<rparr>,
     CallRestoreCollectionIndexes (Some \<lparr>DB = ''db1'', C = ''users''\<rparr>) [''users_index''],
     CallRestoreBeginCollection \<lparr>DB = ''db1'', C = ''orders''\<rparr>,
     CallRestoreCollectionBSON \<lparr>DB = ''db1'', C = ''orders''\<rparr>,
     CallRestoreCollectionIndexes (Some \<lparr>DB = ''db1'', C = ''orders''\<rparr>) [''orders_index'']],
    ReturnedNil)"
  by (simp add: driver_defs)

section \<open>Claims about the driver\<close>

text \<open>
  Claim C2 (exactly one \<open>RestoreCollectionIndexes\<close> call for each non-system collection with
  metadata or a matching \<open>system.indexes\<close> entry; a database transition flushes the pending
  indexes of the previous database's last collection).  \<open>ChangeDatabase\<close> sets
  \<open>SystemIndexes\<close> to nil before it calls \<open>ChangeCollection("")\<close>, so the indexes that
  \<open>system.indexes\<close> holds for the last collection of a database are dropped when the next
  database begins.  Here \<open>orders\<close> has the entry \<open>orders_index\<close> in \<open>db1/system.indexes.bson\<close> and
  is the last collection of \<open>db1\<close>; the archive goes on with \<open>db2\<close>, and no
  \<open>RestoreCollectionIndexes\<close> call is made at all.  In scenario D, where the same collection
  is the last of the archive, the call is made.
\<close>

theorem C2_database_transition_drops_system_indexes:
  "callsAndOutcome (RestoreTarDump exampleRestore
      [''db1/system.indexes.bson'', ''db1/orders.bson'', ''db2/x.bson''] None) =
   ([CallIndexesFromBSONReader [] ''db1/system.indexes.bson'',
     CallRestoreBeginCollection \<lparr>DB = ''db1'', C = ''orders''\<rparr>,
     CallRestoreCollectionBSON \<lparr>DB = ''db1'', C = ''orders''\<rparr>,
     CallRestoreBeginCollection \<lparr>DB = ''db2'', C = ''x''\<rparr>,
     CallRestoreCollectionBSON \<lparr>DB = ''db2'', C = ''x''\<rparr>],
    ReturnedNil)"
  by (simp add: driver_defs)

text \<open>
  Claim C3 (every collaborator error is fatal: \<open>RestoreTarDump\<close> aborts and returns it).  The
  errors of \<open>RestoreBeginCollection\<close> and \<open>RestoreCollectionMetadata\<close> are returned, but three
  others are not.  With \<open>RestoreCollectionBSON\<close> failing on every call, the driver goes on to
  the next collection and returns nil; with \<open>IndexesFromBSONReader\<close> failing, it goes on and
  returns nil; with \<open>RestoreCollectionIndexes\<close> failing, the call made in the collection
  transition from \<open>users\<close> to \<open>orders\<close> is ignored and \<open>orders\<close> is restored (the error
  returned at the end is that of the last call, made by the final \<open>ChangeCollection("")\<close>).
\<close>

theorem C3_collaborator_errors_ignored:
  "callsAndOutcome (RestoreTarDump
      (exampleRestore\<lparr>RestoreCollectionBSON := (\<lambda>i. Some (CollaboratorError ''bson''))\<rparr>)
      [''db1/users.bson'', ''db1/orders.bson''] None) =
   ([CallRestoreBeginCollection \<lparr>DB = ''db1'', C = ''users''\<rparr>,
     CallRestoreCollectionBSON \<lparr>DB = ''db1'', C = ''users''\<rparr>,
     CallRestoreBeginCollection \<lparr>DB = ''db1'', C = ''orders''\<rparr>,
     CallRestoreCollectionBSON \<lparr>DB = ''db1'', C = ''orders''\<rparr>],
    ReturnedNil)
   \<and> callsAndOutcome (RestoreTarDump
      (exampleRestore\<lparr>IndexesFromBSONReader := (\<lambda>c f. (None, Some (CollaboratorError ''indexes'')))\<rparr>)
      [''db1/system.indexes.bson'', ''db1/orders.bson''] None) =
   ([CallIndexesFromBSONReader [] ''db1/system.indexes.bson'',
     CallRestoreBeginCollection \<lparr>DB = ''db1'', C = ''orders''\<rparr>,
     CallRestoreCollectionBSON \<lparr>DB = ''db1'', C = ''orders''\<rparr>],
    ReturnedNil)
   \<and> callsAndOutcome (RestoreTarDump
      (exampleRestore\<lparr>RestoreCollectionIndexes :=
          (\<lambda>i idx. Some (CollaboratorError (''index '' @ (case i of None \<Rightarrow> [] | Some it \<Rightarrow> C it))))\<rparr>)
      [''db1/users.metadata.json'', ''db1/orders.bson''] None) =
   ([CallRestoreBeginCollection \<lparr>DB = ''db1'', C = ''users''\<rparr>,
     CallRestoreCollectionMetadata \<lparr>DB = ''db1'', C = ''users''\<rparr> False,
     CallRestoreCollectionIndexes (Some \<lparr>DB = ''db1'', C = ''users''\<rparr>) [''users_index''],
     CallRestoreCollectionBSON \<lparr>DB = ''db1'', C = ''orders''\<rparr>,
     CallRestoreCollectionIndexes (Some \<lparr>DB = ''db1'', C = ''orders''\<rparr>) [''users_index'']],
    Returned (CollaboratorError ''index orders''))"
  by (simp add: driver_defs)

text \<open>
  Claim C4 (late-metadata guard: once a collection's own BSON file has been restored, a later
  metadata file of the same collection is skipped and no \<open>RestoreCollectionMetadata\<close> call is
  made).  The guard reads \<open>RestoredBSON\<close>, but no statement of the source sets that field to
  true: \<open>ChangeCollection\<close> sets it to false and the branch that calls
  \<open>RestoreCollectionBSON\<close> leaves it alone.  So the metadata file that follows the BSON file
  of \<open>users\<close> is not skipped: the collection is begun a second time and
  \<open>RestoreCollectionMetadata\<close> is called.
\<close>

theorem C4_late_metadata_is_restored:
  "callsAndOutcome (RestoreTarDump exampleRestore
      [''db1/users.bson'', ''db1/users.metadata.json''] None) =
   ([CallRestoreBeginCollection \<lparr>DB = ''db1'', C = ''users''\<rparr>,
     CallRestoreCollectionBSON \<lparr>DB = ''db1'', C = ''users''\<rparr>,
     CallRestoreBeginCollection \<lparr>DB = ''db1'', C = ''users''\<rparr>,
     CallRestoreCollectionMetadata \<lparr>DB = ''db1'', C = ''users''\<rparr> False,
     CallRestoreCollectionIndexes (Some \<lparr>DB = ''db1'', C = ''users''\<rparr>) [''users_index'']],
    ReturnedNil)"
  by (simp add: driver_defs)

text \<open>
  Claim C10 (at every call of \<open>ChangeCollection\<close>, \<open>Intent\<close> is non-nil whenever
  \<open>RestoredMetadata\<close> is true or \<open>SystemIndexes\<close> is non-nil, so \<open>state.Intent.C\<close> never
  faults).  The loop stores the result of \<open>CreateIntentForFile\<close> in \<open>state.Intent\<close> before it
  tests it for nil, so a file for which no intent is made leaves \<open>Intent\<close> nil while
  \<open>SystemIndexes\<close> stays as it was.  Here \<open>CreateIntentForFile\<close> makes no intent for collection
  \<open>tmp\<close>: after \<open>db1/system.indexes.bson\<close> has been read, the file \<open>db1/tmp.bson\<close> sets
  \<open>Intent\<close> to nil, and the final \<open>ChangeCollection("")\<close> dereferences it.
\<close>

theorem C10_nil_intent_dereferenced:
  "callsAndOutcome (RestoreTarDump
      (exampleRestore\<lparr>CreateIntentForFile :=
          (\<lambda>db c t uses. (if c = ''tmp'' then None else Some \<lparr>DB = db, C = c\<rparr>, uses))\<rparr>)
      [''db1/system.indexes.bson'', ''db1/tmp.bson''] None) =
   ([CallIndexesFromBSONReader [] ''db1/system.indexes.bson''], NilDereferencePanic)"
  by (simp add: driver_defs)

section \<open>Chunk names: printing and parsing\<close>

lemma digit_val_le: "isDigit c \<Longrightarrow> digit_val c \<le> 9"
  by (auto simp: isDigit_def digit_val_def)

lemma foldl_digits_bound:
  "list_all isDigit s \<Longrightarrow> foldl (\<lambda>a c. 10 * a + digit_val c) a0 s < (a0 + 1) * 10 ^ length s"
proof (induction s arbitrary: a0)
  case Nil
  then show ?case by simp
next
  case (Cons c s)
  then have d: "digit_val c \<le> 9" and s: "list_all isDigit s" by (auto dest: digit_val_le)
  have "foldl (\<lambda>a c. 10 * a + digit_val c) (10 * a0 + digit_val c) s
          < (10 * a0 + digit_val c + 1) * 10 ^ length s"
    by (rule Cons.IH [OF s])
  also have "\<dots> \<le> (10 * a0 + 10) * 10 ^ length s"
    using d by (intro mult_right_mono) auto
  also have "\<dots> = (a0 + 1) * 10 ^ length (c # s)" by (simp add: algebra_simps)
  finally show ?case by simp
qed

lemma chunkFileNameRegex_SomeD:
  assumes "chunkFileNameRegex s = Some (nm, digs)"
  shows "length digs = 12 \<and> list_all isDigit digs \<and> nm \<noteq> [] \<and> CHR 0x0A \<notin> set nm \<and> s = nm @ ''.'' @ digs"
proof -
  let ?n = "length s"
  from assms have n: "14 \<le> ?n" and nm: "nm = take (?n - 13) s" and digs: "digs = drop (?n - 12) s"
    and dot: "s ! (?n - 13) = CHR ''.''" and dg: "list_all isDigit digs" and nl: "CHR 0x0A \<notin> set nm"
    by (auto simp: chunkFileNameRegex_def Let_def split: if_splits)
  from n have lt: "?n - 13 < ?n" and suc: "Suc (?n - 13) = ?n - 12" by auto
  have "s = take (?n - 13) s @ s ! (?n - 13) # drop (Suc (?n - 13)) s"
    by (rule id_take_nth_drop [OF lt])
  with nm digs dot suc have "s = nm @ ''.'' @ digs" by simp
  moreover from n digs have "length digs = 12" by simp
  moreover from n nm have "nm \<noteq> []" by auto
  ultimately show ?thesis using dg nl by simp
qed

lemma chunkFileNameRegex_chunk:
  assumes "length digs = 12" "list_all isDigit digs" "nm \<noteq> []" "CHR 0x0A \<notin> set nm"
  shows "chunkFileNameRegex (nm @ ''.'' @ digs) = Some (nm, digs)"
  using assms by (cases nm) (simp_all add: chunkFileNameRegex_def Let_def nth_append)

lemma ParseUint_12:
  "length digs = 12 \<Longrightarrow> list_all isDigit digs \<Longrightarrow>
     ParseUint digs = Inr (of_nat (foldl (\<lambda>a c. 10 * a + digit_val c) 0 digs))"
  using foldl_digits_bound [of digs 0]
  by (auto simp: ParseUint_def Let_def)


lemma digit_char_props:
  assumes "d < 10"
  shows "isDigit (digit_char d)" and "digit_val (digit_char d) = d"
proof -
  from assms have "d = 0 \<or> d = 1 \<or> d = 2 \<or> d = 3 \<or> d = 4 \<or> d = 5 \<or> d = 6 \<or> d = 7 \<or> d = 8 \<or> d = 9"
    by arith
  then show "isDigit (digit_char d)" and "digit_val (digit_char d) = d"
    by (auto simp: digit_char_def isDigit_def digit_val_def)
qed

lemma digits10_isDigit: "list_all isDigit (digits10 n)"
  by (induction n rule: digits10.induct) (subst digits10.simps, simp add: digit_char_props)

lemma digits10_length: "0 < k \<Longrightarrow> n < 10 ^ k \<Longrightarrow> length (digits10 n) \<le> k"
proof (induction n arbitrary: k rule: digits10.induct)
  case (1 n)
  show ?case
  proof (cases "n < 10")
    case True
    with "1.prems" show ?thesis by (subst digits10.simps) simp
  next
    case False
    with "1.prems" have k: "1 < k" by (cases "k = 1") auto
    then obtain j where j: "k = Suc j" "0 < j" by (cases k) auto
    from "1.prems" j have "n div 10 < 10 ^ j" by (simp add: less_mult_imp_div_less mult.commute)
    from "1.IH" [OF False \<open>0 < j\<close> this] j False show ?thesis
      by (subst digits10.simps) simp
  qed
qed

lemma parse_digits10: "foldl (\<lambda>a c. 10 * a + digit_val c) 0 (digits10 n) = n"
  by (induction n rule: digits10.induct) (subst digits10.simps, simp add: digit_char_props)

lemma parse_zeros: "foldl (\<lambda>a c. 10 * a + digit_val c) 0 (replicate m (CHR ''0'') @ s)
   = foldl (\<lambda>a c. 10 * a + digit_val c) 0 s"
  by (induction m) (simp_all add: digit_val_def)

lemma pad12_props:
  assumes "k < 10 ^ 12"
  shows "length (pad12 (digits10 k)) = 12" and "list_all isDigit (pad12 (digits10 k))"
    and "foldl (\<lambda>a c. 10 * a + digit_val c) 0 (pad12 (digits10 k)) = k"
proof -
  from assms have "length (digits10 k) \<le> 12" by (intro digits10_length) simp_all
  then show "length (pad12 (digits10 k)) = 12" by (simp add: pad12_def)
  have "isDigit (CHR ''0'')" by (simp add: isDigit_def)
  with digits10_isDigit [of k] show "list_all isDigit (pad12 (digits10 k))"
    by (auto simp: pad12_def list_all_iff)
  show "foldl (\<lambda>a c. 10 * a + digit_val c) 0 (pad12 (digits10 k)) = k"
    unfolding pad12_def by (simp only: parse_zeros parse_digits10)
qed

lemma chunkName_parse:
  assumes "unat c < 10 ^ 12" "nm \<noteq> []" "CHR 0x0A \<notin> set nm"
  shows "chunkFileNameRegex (chunkName nm c) = Some (nm, pad12 (digits10 (unat c)))"
    and "ParseUint (pad12 (digits10 (unat c))) = Inr c"
proof -
  note p = pad12_props [OF assms(1)]
  show "chunkFileNameRegex (chunkName nm c) = Some (nm, pad12 (digits10 (unat c)))"
    unfolding chunkName_def by (rule chunkFileNameRegex_chunk [OF p(1) p(2) assms(2) assms(3)])
  show "ParseUint (pad12 (digits10 (unat c))) = Inr c"
    by (simp add: ParseUint_12 [OF p(1) p(2)] p(3))
qed


section \<open>Claims about the Reader's chunk validation\<close>

text \<open>
  Claim C7 (chunk-ordering validation in \<open>nextChunk\<close>).  Whenever the next tar entry's name
  matches the chunk regex, with base \<open>nm\<close> and twelve digits \<open>digs\<close>, the digits parse to an
  index \<open>k\<close> (the parse cannot fail), and: if \<open>nm\<close> is the current logical name, the Reader
  fails with the chunks-out-of-order error unless \<open>k\<close> is the current index plus one, and
  otherwise records \<open>k\<close>; if \<open>nm\<close> is another name, the Reader fails with the
  missing-first-chunk error unless \<open>k = 0\<close>, and otherwise queues \<open>nm\<close> in \<open>nextName\<close> and
  clears the current name, so that the next call of \<open>Next\<close> returns \<open>nm\<close> without reading
  further.
\<close>

theorem C7_nextChunk_validates_chunk_order:
  assumes "tar_Next (tarReader r) = (tr, Inr hname)"
    and "chunkFileNameRegex hname = Some (nm, digs)"
  shows "\<exists>k. ParseUint digs = Inr k \<and>
           nextChunk r =
             (if nm = rname r then
                (if k = number r + 1 then (r\<lparr>tarReader := tr, number := k\<rparr>, None)
                 else (r\<lparr>tarReader := tr\<rparr>, Some (ChunksOutOfOrder nm (number r + 1) k)))
              else if k = 0 then (r\<lparr>tarReader := tr, nextName := nm, rname := []\<rparr>, None)
              else (r\<lparr>tarReader := tr\<rparr>, Some (MissingFirstChunk nm k))) \<and>
           (nm \<noteq> rname r \<and> k = 0 \<longrightarrow>
              Next (fst (nextChunk r)) =
                (r\<lparr>tarReader := tr, nextName := [], rname := nm, number := 0\<rparr>, Inr nm))"
proof -
  from chunkFileNameRegex_SomeD [OF assms(2)]
  have d: "length digs = 12" "list_all isDigit digs" and nm: "nm \<noteq> []" by simp_all
  let ?k = "of_nat (foldl (\<lambda>a c. 10 * a + digit_val c) 0 digs) :: 64 word"
  have p: "ParseUint digs = Inr ?k" by (rule ParseUint_12 [OF d])
  have nc: "nextChunk r =
             (if nm = rname r then
                (if ?k = number r + 1 then (r\<lparr>tarReader := tr, number := ?k\<rparr>, None)
                 else (r\<lparr>tarReader := tr\<rparr>, Some (ChunksOutOfOrder nm (number r + 1) ?k)))
              else if ?k = 0 then (r\<lparr>tarReader := tr, nextName := nm, rname := []\<rparr>, None)
              else (r\<lparr>tarReader := tr\<rparr>, Some (MissingFirstChunk nm ?k)))"
    using assms p by (simp add: nextChunk_def Let_def)
  have "Next (r\<lparr>tarReader := tr, nextName := nm, rname := []\<rparr>) =
          (r\<lparr>tarReader := tr, nextName := [], rname := nm, number := 0\<rparr>, Inr nm)"
    using nm by (simp add: Next_def Next_loop.simps)
  with p nc show ?thesis by (intro exI [of _ ?k]) auto
qed

text \<open>
  The theorem at work: a reader that stands on chunk 1 of \<open>a\<close> meets the entry
  \<open>a.000000000003\<close> and fails; a fresh reader meets \<open>a.000000000000\<close> and queues \<open>a\<close>.
\<close>

definition exampleReader :: Reader where
  "exampleReader =
     \<lparr>tarReader = tar_NewReader [(''a.000000000003'', [3])] False False,
      rname = ''a'', number = 1, nextName = []\<rparr>"

theorem C7_nextChunk_validates_chunk_order_witness:
  "tar_Next (tarReader exampleReader) =
     ((tarReader exampleReader)\<lparr>pending := [], curName := ''a.000000000003'', cur := [3]\<rparr>,
      Inr ''a.000000000003'')
   \<and> chunkFileNameRegex ''a.000000000003'' = Some (''a'', ''000000000003'')
   \<and> nextChunk exampleReader =
       (exampleReader\<lparr>tarReader :=
          (tarReader exampleReader)\<lparr>pending := [], curName := ''a.000000000003'', cur := [3]\<rparr>\<rparr>,
        Some (ChunksOutOfOrder ''a'' 2 3))"
proof -
  have 1: "tar_Next (tarReader exampleReader) =
     ((tarReader exampleReader)\<lparr>pending := [], curName := ''a.000000000003'', cur := [3]\<rparr>,
      Inr ''a.000000000003'')"
    by (simp add: exampleReader_def tar_NewReader_def tar_Next_def)
  have 2: "chunkFileNameRegex ''a.000000000003'' = Some (''a'', ''000000000003'')"
    by (simp add: chunkFileNameRegex_def isDigit_def Let_def)
  have 3: "ParseUint ''000000000003'' = Inr 3"
    by (simp add: ParseUint_def isDigit_def digit_val_def Let_def)
  from C7_nextChunk_validates_chunk_order [OF 1 2] 3
  have "nextChunk exampleReader =
       (exampleReader\<lparr>tarReader :=
          (tarReader exampleReader)\<lparr>pending := [], curName := ''a.000000000003'', cur := [3]\<rparr>\<rparr>,
        Some (ChunksOutOfOrder ''a'' 2 3))"
    by (auto simp: exampleReader_def)
  with 1 2 show ?thesis by simp
qed

section \<open>The Reader on an entry with an empty name\<close>

text \<open>
  \<open>Read\<close> and \<open>Next\<close> take \<open>nextName == ""\<close> to mean that no logical file is queued.  An
  entry whose header name is empty does not match the chunk regex, so \<open>nextChunk\<close> queues
  the empty name and clears \<open>name\<close>: the reader is then in the state that \<open>Read\<close> takes for
  a chunk that continues the current file.
\<close>

definition emptyNameArchive :: "tar_entry list" where
  "emptyNameArchive = [(''a.000000000000'', []), ([], [2])]"

definition emptyNameArchive' :: "tar_entry list" where
  "emptyNameArchive' = [(''a.000000000000'', [1]), ([], [2])]"

lemmas reader_defs = NewReader_def tar_NewReader_def Next_def Next_loop.simps nextChunk_def
  tar_Next_def tar_Read_def Read_def chunkFileNameRegex_def ParseUint_def isDigit_def
  digit_val_def Let_def

text \<open>
  Claim C9 (\<open>Read\<close> never returns bytes of a logical file other than the current one, and
  does not consume the next file's chunks) fails on these archives.  After \<open>Next\<close> has returned
  \<open>a\<close>, a \<open>Read\<close> into a buffer of one byte returns the byte \<open>2\<close>, which is the body of the
  entry with the empty name, whichever way the tar reader reports the end of an entry; the
  tar reader then stands on that entry, and the following \<open>Next\<close> returns \<open>io.EOF\<close>.  With a
  tar reader that reports the end of an entry by a call of its own, the same happens after
  the byte of \<open>a\<close> has been read.
\<close>

theorem C9_Read_returns_bytes_of_empty_named_entry:
  "(case Next (NewReader (tar_NewReader emptyNameArchive False True)) of
      (r, res) \<Rightarrow> res = Inr ''a'' \<and>
        (case Read r 1 of (r', bs, err) \<Rightarrow>
           bs = [2] \<and> err = Some EOF \<and> curName (tarReader r') = [] \<and> snd (Next r') = Inl EOF))
   \<and> (case Next (NewReader (tar_NewReader emptyNameArchive False False)) of
      (r, res) \<Rightarrow> res = Inr ''a'' \<and>
        (case Read r 1 of (r', bs, err) \<Rightarrow>
           bs = [2] \<and> err = None \<and> curName (tarReader r') = [] \<and> snd (Next r') = Inl EOF))
   \<and> (case Next (NewReader (tar_NewReader emptyNameArchive' False False)) of
      (r, res) \<Rightarrow> res = Inr ''a'' \<and>
        (case Read r 1 of (r1, bs1, err1) \<Rightarrow>
           bs1 = [1] \<and> err1 = None \<and> curName (tarReader r1) = ''a.000000000000'' \<and>
           (case Read r1 1 of (r2, bs2, err2) \<Rightarrow>
              bs2 = [2] \<and> err2 = None \<and> curName (tarReader r2) = [] \<and> snd (Next r2) = Inl EOF)))"
  by (simp add: reader_defs emptyNameArchive_def emptyNameArchive'_def)

text \<open>The first case again, with the calls written out: the bytes that \<open>Read\<close> returns for \<open>a\<close>.\<close>

theorem C9_Read_returns_bytes_of_empty_named_entry_witness:
  "snd (Next (NewReader (tar_NewReader emptyNameArchive False True))) = Inr ''a'' \<and>
   fst (snd (Read (fst (Next (NewReader (tar_NewReader emptyNameArchive False True)))) 1)) = [2]"
  using C9_Read_returns_bytes_of_empty_named_entry by (simp split: prod.splits)

end
